theory Spec2Isabelle
  imports Main
begin

section \<open>The authentication dispatch layer of src/common/slurm_auth.c\<close>

text \<open>
  The file binds an authentication type name to a plugin, resolves the plugin's nine
  entry points into a table of function pointers, and forwards every credential
  operation through that table, either for a context the caller supplies
  (\<open>c_slurm_auth_*\<close>) or for one process-wide context built on first use
  (\<open>g_slurm_auth_*\<close>).

  The model is sequential: \<open>slurm_mutex_lock\<close> and \<open>slurm_mutex_unlock\<close>
  around the configuration cache have no counterpart here.
\<close>

subsection \<open>Pointers, return codes, calls through function pointers\<close>

text \<open>
  Every C pointer the file handles (credential, buffer, stream, plugin handle, function
  pointer) is an address or \<open>NULL\<close>; \<open>None\<close> is \<open>NULL\<close>.
\<close>

type_synonym addr = nat
type_synonym ptr = "addr option"

text \<open>
  Modelled from the spec: the macros below are declared in headers that are not at
  hand (slurm_errno.h, slurm_auth.h, plugin.h, plugrack.h). The spec speaks of the
  ok and the fail code, the nobody sentinel, the invalid mechanism handle and the
  least restrictive load policy; nothing below depends on the numbers chosen, only on
  \<open>SLURM_SUCCESS\<close> and \<open>SLURM_ERROR\<close> being different.
\<close>

definition SLURM_SUCCESS :: int where
  "SLURM_SUCCESS = 0"

definition SLURM_ERROR :: int where
  "SLURM_ERROR = - 1"

definition SLURM_AUTH_NOBODY :: nat where
  "SLURM_AUTH_NOBODY = 99"

definition PLUGIN_INVALID_HANDLE :: ptr where
  "PLUGIN_INVALID_HANDLE = None"

definition PLUGRACK_PARANOIA_NONE :: nat where
  "PLUGRACK_PARANOIA_NONE = 0"

text \<open>
  What a dispatch function does is one of three things: it returns a value of its own
  without calling into the plugin (\<open>Return\<close>); it calls the plugin function at some
  address with some arguments, and the plugin's result is the result (\<open>Invoke\<close>);
  or it calls through a \<open>NULL\<close> pointer (\<open>Segfault\<close>). The plugin's code is not
  part of this file, so the model stops at the call.
\<close>

datatype arg = Ptr_arg ptr | Int_arg int

datatype 'r outcome = Return 'r | Invoke addr "arg list" | Segfault

text \<open>The unguarded call \<open>(*fp)(args)\<close>.\<close>

definition call :: "ptr \<Rightarrow> arg list \<Rightarrow> 'r outcome" where
  "call fp args = (case fp of None \<Rightarrow> Segfault | Some f \<Rightarrow> Invoke f args)"

subsection \<open>Data\<close>

text \<open>\<open>slurm_auth_ops_t\<close>: nine function pointers, in the order of the struct.\<close>

record slurm_auth_ops =
  alloc :: ptr
  free :: ptr
  activate :: ptr
  verify :: ptr
  get_uid :: ptr
  get_gid :: ptr
  pack :: ptr
  unpack :: ptr
  print :: ptr

definition null_ops :: slurm_auth_ops where
  "null_ops = \<lparr>alloc = None, free = None, activate = None, verify = None,
     get_uid = None, get_gid = None, pack = None, unpack = None, print = None\<rparr>"

text \<open>The number of slots of a table that hold a function.\<close>

definition populated :: "slurm_auth_ops \<Rightarrow> nat" where
  "populated t = length (filter (\<lambda>p. p \<noteq> None)
     [alloc t, free t, activate t, verify t, get_uid t, get_gid t, pack t, unpack t, print t])"

text \<open>
  Modelled from the spec: the plugin rack, whose code (plugrack.c) is not at hand. The spec's
  registry contract is \<open>set_category(handle, "auth")\<close>,
  \<open>set_load_policy(handle, least-restrictive)\<close>, \<open>scan(handle, path)\<close>; a rack
  records what it was told.
\<close>

record plugrack =
  major_type :: "string option"
  paranoia :: "nat \<times> nat"
  dirs_read :: "string list"

definition plugrack_set_major_type :: "plugrack \<Rightarrow> string \<Rightarrow> plugrack" where
  "plugrack_set_major_type r t = r\<lparr>major_type := Some t\<rparr>"

definition plugrack_set_paranoia :: "plugrack \<Rightarrow> nat \<Rightarrow> nat \<Rightarrow> plugrack" where
  "plugrack_set_paranoia r flags owner = r\<lparr>paranoia := (flags, owner)\<rparr>"

definition plugrack_read_dir :: "plugrack \<Rightarrow> string \<Rightarrow> plugrack" where
  "plugrack_read_dir r d = r\<lparr>dirs_read := dirs_read r @ [d]\<rparr>"

text \<open>\<open>struct slurm_auth_context\<close>.\<close>

record slurm_auth_context =
  auth_type :: string
  plugin_list :: "plugrack option"
  cur_plugin :: ptr
  ops :: slurm_auth_ops

text \<open>
  The fields of \<open>slurm_ctl_conf_t\<close> this file reads and writes. \<open>conf\<close> has static
  storage, so it starts zeroed.
\<close>

record slurm_ctl_conf =
  slurmd_port :: nat
  plugindir :: "string option"
  authtype :: "string option"

definition conf_zero :: slurm_ctl_conf where
  "conf_zero = \<lparr>slurmd_port = 0, plugindir = None, authtype = None\<rparr>"

text \<open>The two file-scope variables \<open>g_context\<close> and \<open>conf\<close>.\<close>

record auth_global =
  g_context :: "slurm_auth_context option"
  conf :: slurm_ctl_conf

definition g_initial :: auth_global where
  "g_initial = \<lparr>g_context = None, conf = conf_zero\<rparr>"

text \<open>
  What the functions called from this file but defined elsewhere answer. They are
  parameters of the model:
  \<^item> \<open>read_slurm_conf_ctl\<close> fills the configuration structure;
  \<^item> \<open>strdup_fails\<close> says for which strings libc's \<open>strdup\<close> returns \<open>NULL\<close>;
  \<^item> \<open>plugrack_create\<close> yields a rack or \<open>NULL\<close>;
  \<^item> \<open>plugrack_use_by_type\<close> yields a plugin handle or \<open>PLUGIN_INVALID_HANDLE\<close>;
  \<^item> \<open>plugin_get_syms\<close> is given the handle, the number of names, the names and the
    table it writes to, and yields the number of names resolved and the table as written;
  \<^item> \<open>plugrack_destroy\<close> yields its return code.
\<close>

record world =
  read_slurm_conf_ctl :: "slurm_ctl_conf \<Rightarrow> slurm_ctl_conf"
  strdup_fails :: "string \<Rightarrow> bool"
  plugrack_create :: "plugrack option"
  plugrack_use_by_type :: "plugrack \<Rightarrow> string \<Rightarrow> ptr"
  plugin_get_syms :: "addr \<Rightarrow> int \<Rightarrow> string list \<Rightarrow> slurm_auth_ops \<Rightarrow> int \<times> slurm_auth_ops"
  plugrack_destroy :: "plugrack \<Rightarrow> int"

definition strdup :: "world \<Rightarrow> string \<Rightarrow> string option" where
  "strdup w s = (if strdup_fails w s then None else Some s)"

subsection \<open>The configuration cache\<close>

definition get_plugin_dir :: "world \<Rightarrow> slurm_ctl_conf \<Rightarrow> slurm_ctl_conf \<times> string" where
  "get_plugin_dir w cf =
     (let cf1 = (if slurmd_port cf = 0 then read_slurm_conf_ctl w cf else cf)
      in case plugindir cf1 of
           None \<Rightarrow> (cf1\<lparr>plugindir := Some ''/usr/local/lib''\<rparr>, ''/usr/local/lib'')
         | Some d \<Rightarrow> (cf1, d))"

definition get_auth_type :: "world \<Rightarrow> slurm_ctl_conf \<Rightarrow> slurm_ctl_conf \<times> string" where
  "get_auth_type w cf =
     (let cf1 = (if slurmd_port cf = 0 then read_slurm_conf_ctl w cf else cf)
      in case authtype cf1 of
           None \<Rightarrow> (cf1\<lparr>authtype := Some ''auth/none''\<rparr>, ''auth/none'')
         | Some a \<Rightarrow> (cf1, a))"

subsection \<open>Resolving the operations of a context\<close>

definition syms :: "string list" where
  "syms = [''slurm_auth_alloc'', ''slurm_auth_free'', ''slurm_auth_activate'',
     ''slurm_auth_verify'', ''slurm_auth_get_uid'', ''slurm_auth_get_gid'',
     ''slurm_auth_pack'', ''slurm_auth_unpack'', ''slurm_auth_print'']"

definition n_syms :: int where
  "n_syms = int (length syms)"

text \<open>
  \<open>slurm_auth_get_ops\<close> returns \<open>NULL\<close> at three places, each after its own
  \<open>verbose\<close> message; the model names them. \<open>Inr ()\<close> stands for the returned
  \<open>&c->ops\<close>. The function writes to the context it is given and, through
  \<open>get_plugin_dir\<close>, to \<open>conf\<close>; both are returned.
\<close>

datatype get_ops_failure =
  Unable_to_create_plugin_manager | Cant_find_plugin | Incomplete_plugin

definition slurm_auth_get_ops ::
  "world \<Rightarrow> slurm_ctl_conf \<Rightarrow> slurm_auth_context
     \<Rightarrow> slurm_ctl_conf \<times> slurm_auth_context \<times> (get_ops_failure + unit)" where
  "slurm_auth_get_ops w cf c =
     (let step1 =
        (case plugin_list c of
           Some r \<Rightarrow> Some (cf, c, r)
         | None \<Rightarrow>
            (case plugrack_create w of
               None \<Rightarrow> None
             | Some r0 \<Rightarrow>
                (let r1 = plugrack_set_major_type r0 ''auth'';
                     r2 = plugrack_set_paranoia r1 PLUGRACK_PARANOIA_NONE 0;
                     (cf1, d) = get_plugin_dir w cf;
                     r3 = plugrack_read_dir r2 d
                 in Some (cf1, c\<lparr>plugin_list := Some r3\<rparr>, r3))))
      in case step1 of
           None \<Rightarrow> (cf, c, Inl Unable_to_create_plugin_manager)
         | Some (cf1, c1, r) \<Rightarrow>
            (let c2 = c1\<lparr>cur_plugin := plugrack_use_by_type w r (auth_type c1)\<rparr>
             in case cur_plugin c2 of
                  None \<Rightarrow> (cf1, c2, Inl Cant_find_plugin)
                | Some h \<Rightarrow>
                   (let (n, t) = plugin_get_syms w h n_syms syms (ops c2);
                        c3 = c2\<lparr>ops := t\<rparr>
                    in if n < n_syms then (cf1, c3, Inl Incomplete_plugin)
                       else (cf1, c3, Inr ()))))"

subsection \<open>Creating and destroying a context\<close>

text \<open>
  \<open>xmalloc\<close> hands out zero-filled storage and does not return on exhaustion, so the
  new context starts with an empty table; \<open>strdup\<close> may return \<open>NULL\<close>.
\<close>

definition slurm_auth_context_create ::
  "world \<Rightarrow> string option \<Rightarrow> slurm_auth_context option" where
  "slurm_auth_context_create w auth_type_arg =
     (case auth_type_arg of
        None \<Rightarrow> None
      | Some s \<Rightarrow>
         (case strdup w s of
            None \<Rightarrow> None
          | Some s' \<Rightarrow>
             Some \<lparr>auth_type = s', plugin_list = None,
                   cur_plugin = PLUGIN_INVALID_HANDLE, ops = null_ops\<rparr>))"

text \<open>
  The second component is the context after the call: \<open>None\<close> once it has been
  freed. The function dereferences \<open>c\<close> without a test, so it takes a context.
\<close>

definition slurm_auth_context_destroy ::
  "world \<Rightarrow> slurm_auth_context \<Rightarrow> int \<times> slurm_auth_context option" where
  "slurm_auth_context_destroy w c =
     (case plugin_list c of
        Some r \<Rightarrow>
          (if plugrack_destroy w r \<noteq> SLURM_SUCCESS then (SLURM_ERROR, Some c)
           else (SLURM_SUCCESS, None))
      | None \<Rightarrow> (SLURM_SUCCESS, None))"

subsection \<open>The global context\<close>

definition slurm_auth_init :: "world \<Rightarrow> auth_global \<Rightarrow> int \<times> auth_global" where
  "slurm_auth_init w st =
     (if g_context st \<noteq> None then (SLURM_SUCCESS, st)
      else
        (let (cf1, a) = get_auth_type w (conf st)
         in case slurm_auth_context_create w (Some a) of
              None \<Rightarrow>
                (let (cf2, a2) = get_auth_type w cf1
                 in (SLURM_ERROR, \<lparr>g_context = None, conf = cf2\<rparr>))
            | Some c \<Rightarrow>
                (let (cf2, c', res) = slurm_auth_get_ops w cf1 c
                 in case res of
                      Inl e \<Rightarrow> (SLURM_ERROR, \<lparr>g_context = Some c', conf = cf2\<rparr>)
                    | Inr u \<Rightarrow> (SLURM_SUCCESS, \<lparr>g_context = Some c', conf = cf2\<rparr>))))"

subsection \<open>Dispatch for a given context\<close>

definition c_slurm_auth_alloc :: "slurm_auth_context option \<Rightarrow> ptr outcome" where
  "c_slurm_auth_alloc c_arg =
     (case c_arg of
        None \<Rightarrow> Return None
      | Some c \<Rightarrow>
         (if alloc (ops c) \<noteq> None then call (alloc (ops c)) [] else Return None))"

definition c_slurm_auth_free :: "slurm_auth_context option \<Rightarrow> ptr \<Rightarrow> unit outcome" where
  "c_slurm_auth_free c_arg cred =
     (case c_arg of
        None \<Rightarrow> Return ()
      | Some c \<Rightarrow>
         (if cred = None then Return ()
          else if free (ops c) \<noteq> None then call (free (ops c)) [Ptr_arg cred]
          else Return ()))"

definition c_slurm_auth_activate ::
  "slurm_auth_context option \<Rightarrow> ptr \<Rightarrow> int \<Rightarrow> int outcome" where
  "c_slurm_auth_activate c_arg cred secs =
     (case c_arg of
        None \<Rightarrow> Return SLURM_ERROR
      | Some c \<Rightarrow>
         (if cred = None then Return SLURM_ERROR
          else if activate (ops c) \<noteq> None
            then call (activate (ops c)) [Ptr_arg cred, Int_arg secs]
          else Return SLURM_ERROR))"

definition c_slurm_auth_verify :: "slurm_auth_context option \<Rightarrow> ptr \<Rightarrow> int outcome" where
  "c_slurm_auth_verify c_arg cred =
     (case c_arg of
        None \<Rightarrow> Return SLURM_ERROR
      | Some c \<Rightarrow>
         (if cred = None then Return SLURM_ERROR
          else if verify (ops c) \<noteq> None then call (verify (ops c)) [Ptr_arg cred]
          else Return SLURM_ERROR))"

definition c_slurm_auth_get_uid :: "slurm_auth_context option \<Rightarrow> ptr \<Rightarrow> nat outcome" where
  "c_slurm_auth_get_uid c_arg cred =
     (case c_arg of
        None \<Rightarrow> Return SLURM_AUTH_NOBODY
      | Some c \<Rightarrow>
         (if cred = None then Return SLURM_AUTH_NOBODY
          else if verify (ops c) \<noteq> None then call (get_uid (ops c)) [Ptr_arg cred]
          else Return SLURM_AUTH_NOBODY))"

definition c_slurm_auth_get_gid :: "slurm_auth_context option \<Rightarrow> ptr \<Rightarrow> nat outcome" where
  "c_slurm_auth_get_gid c_arg cred =
     (case c_arg of
        None \<Rightarrow> Return SLURM_AUTH_NOBODY
      | Some c \<Rightarrow>
         (if cred = None then Return SLURM_AUTH_NOBODY
          else if verify (ops c) \<noteq> None then call (get_gid (ops c)) [Ptr_arg cred]
          else Return SLURM_AUTH_NOBODY))"

definition c_slurm_auth_pack ::
  "slurm_auth_context option \<Rightarrow> ptr \<Rightarrow> ptr \<Rightarrow> unit outcome" where
  "c_slurm_auth_pack c_arg cred buf =
     (case c_arg of
        None \<Rightarrow> Return ()
      | Some c \<Rightarrow>
         (if cred = None \<or> buf = None then Return ()
          else if pack (ops c) \<noteq> None then call (pack (ops c)) [Ptr_arg cred, Ptr_arg buf]
          else Return ()))"

definition c_slurm_auth_unpack ::
  "slurm_auth_context option \<Rightarrow> ptr \<Rightarrow> ptr \<Rightarrow> int outcome" where
  "c_slurm_auth_unpack c_arg cred buf =
     (case c_arg of
        None \<Rightarrow> Return SLURM_ERROR
      | Some c \<Rightarrow>
         (if cred = None \<or> buf = None then Return SLURM_ERROR
          else if unpack (ops c) \<noteq> None
            then call (unpack (ops c)) [Ptr_arg cred, Ptr_arg buf]
          else Return SLURM_ERROR))"

definition c_slurm_auth_print ::
  "slurm_auth_context option \<Rightarrow> ptr \<Rightarrow> ptr \<Rightarrow> unit outcome" where
  "c_slurm_auth_print c_arg cred fp =
     (case c_arg of
        None \<Rightarrow> Return ()
      | Some c \<Rightarrow>
         (if cred = None \<or> fp = None then Return ()
          else if print (ops c) \<noteq> None then call (print (ops c)) [Ptr_arg cred, Ptr_arg fp]
          else Return ()))"

subsection \<open>Dispatch for the global context\<close>

text \<open>
  \<open>(*(g_context->ops.f))(args)\<close>: the slot \<open>f\<close> of the global context's table is
  called without a test.
\<close>

definition g_call ::
  "auth_global \<Rightarrow> (slurm_auth_ops \<Rightarrow> ptr) \<Rightarrow> arg list \<Rightarrow> 'r outcome" where
  "g_call st slot args =
     (case g_context st of None \<Rightarrow> Segfault | Some c \<Rightarrow> call (slot (ops c)) args)"

definition g_slurm_auth_alloc :: "world \<Rightarrow> auth_global \<Rightarrow> auth_global \<times> ptr outcome" where
  "g_slurm_auth_alloc w st =
     (if g_context st = None then
        (let (rc, st') = slurm_auth_init w st
         in if rc \<noteq> SLURM_SUCCESS then (st', Return None)
            else (st', g_call st' alloc []))
      else (st, g_call st alloc []))"

definition g_slurm_auth_free ::
  "world \<Rightarrow> auth_global \<Rightarrow> ptr \<Rightarrow> auth_global \<times> unit outcome" where
  "g_slurm_auth_free w st cred =
     (if g_context st = None then
        (let (rc, st') = slurm_auth_init w st
         in if rc \<noteq> SLURM_SUCCESS then (st', Return ())
            else (st', g_call st' free [Ptr_arg cred]))
      else (st, g_call st free [Ptr_arg cred]))"

definition g_slurm_auth_activate ::
  "world \<Rightarrow> auth_global \<Rightarrow> ptr \<Rightarrow> int \<Rightarrow> auth_global \<times> int outcome" where
  "g_slurm_auth_activate w st cred secs =
     (if g_context st = None then
        (let (rc, st') = slurm_auth_init w st
         in if rc \<noteq> SLURM_SUCCESS then (st', Return SLURM_ERROR)
            else (st', g_call st' activate [Ptr_arg cred, Int_arg secs]))
      else (st, g_call st activate [Ptr_arg cred, Int_arg secs]))"

definition g_slurm_auth_verify ::
  "world \<Rightarrow> auth_global \<Rightarrow> ptr \<Rightarrow> auth_global \<times> int outcome" where
  "g_slurm_auth_verify w st cred =
     (if g_context st = None then
        (let (rc, st') = slurm_auth_init w st
         in if rc \<noteq> SLURM_SUCCESS then (st', Return SLURM_ERROR)
            else (st', g_call st' verify [Ptr_arg cred]))
      else (st, g_call st verify [Ptr_arg cred]))"

definition g_slurm_auth_get_uid ::
  "world \<Rightarrow> auth_global \<Rightarrow> ptr \<Rightarrow> auth_global \<times> nat outcome" where
  "g_slurm_auth_get_uid w st cred =
     (if g_context st = None then
        (let (rc, st') = slurm_auth_init w st
         in if rc \<noteq> SLURM_SUCCESS then (st', Return SLURM_AUTH_NOBODY)
            else (st', g_call st' get_uid [Ptr_arg cred]))
      else (st, g_call st get_uid [Ptr_arg cred]))"

definition g_slurm_auth_get_gid ::
  "world \<Rightarrow> auth_global \<Rightarrow> ptr \<Rightarrow> auth_global \<times> nat outcome" where
  "g_slurm_auth_get_gid w st cred =
     (if g_context st = None then
        (let (rc, st') = slurm_auth_init w st
         in if rc \<noteq> SLURM_SUCCESS then (st', Return SLURM_AUTH_NOBODY)
            else (st', g_call st' get_gid [Ptr_arg cred]))
      else (st, g_call st get_gid [Ptr_arg cred]))"

definition g_slurm_auth_pack ::
  "world \<Rightarrow> auth_global \<Rightarrow> ptr \<Rightarrow> ptr \<Rightarrow> auth_global \<times> unit outcome" where
  "g_slurm_auth_pack w st cred buf =
     (if g_context st = None then
        (let (rc, st') = slurm_auth_init w st
         in if rc \<noteq> SLURM_SUCCESS then (st', Return ())
            else (st', g_call st' pack [Ptr_arg cred, Ptr_arg buf]))
      else (st, g_call st pack [Ptr_arg cred, Ptr_arg buf]))"

definition g_slurm_auth_unpack ::
  "world \<Rightarrow> auth_global \<Rightarrow> ptr \<Rightarrow> ptr \<Rightarrow> auth_global \<times> int outcome" where
  "g_slurm_auth_unpack w st cred buf =
     (if g_context st = None then
        (let (rc, st') = slurm_auth_init w st
         in if rc \<noteq> SLURM_SUCCESS then (st', Return SLURM_ERROR)
            else (st', g_call st' unpack [Ptr_arg cred, Ptr_arg buf]))
      else (st, g_call st unpack [Ptr_arg cred, Ptr_arg buf]))"

definition g_slurm_auth_print ::
  "world \<Rightarrow> auth_global \<Rightarrow> ptr \<Rightarrow> ptr \<Rightarrow> auth_global \<times> unit outcome" where
  "g_slurm_auth_print w st cred fp =
     (if g_context st = None then
        (let (rc, st') = slurm_auth_init w st
         in if rc \<noteq> SLURM_SUCCESS then (st', Return ())
            else (st', g_call st' print [Ptr_arg cred, Ptr_arg fp]))
      else (st, g_call st print [Ptr_arg cred, Ptr_arg fp]))"

subsection \<open>Concrete sites\<close>

text \<open>
  Installations the theorems below are evaluated at. \<open>site_complete\<close> has a
  configuration file that sets the port only, and an \<open>auth/none\<close> plugin that exports
  all nine symbols; the other sites differ from it in one respect each.
\<close>

definition full_table :: slurm_auth_ops where
  "full_table = \<lparr>alloc = Some 101, free = Some 102, activate = Some 103, verify = Some 104,
     get_uid = Some 105, get_gid = Some 106, pack = Some 107, unpack = Some 108,
     print = Some 109\<rparr>"

definition empty_rack :: plugrack where
  "empty_rack = \<lparr>major_type = None, paranoia = (0, 0), dirs_read = []\<rparr>"

definition site_complete :: world where
  "site_complete =
     \<lparr>read_slurm_conf_ctl = (\<lambda>cf. cf\<lparr>slurmd_port := 7003\<rparr>),
      strdup_fails = (\<lambda>s. False),
      plugrack_create = Some empty_rack,
      plugrack_use_by_type = (\<lambda>r t. if t = ''auth/none'' then Some 1 else None),
      plugin_get_syms = (\<lambda>h n names t. (9, full_table)),
      plugrack_destroy = (\<lambda>r. SLURM_SUCCESS)\<rparr>"

text \<open>The plugin lacks \<open>slurm_auth_print\<close>: eight pointers are written, 8 is returned.\<close>

definition site_eight_of_nine :: world where
  "site_eight_of_nine =
     site_complete\<lparr>plugin_get_syms := (\<lambda>h n names t. (8, full_table\<lparr>print := None\<rparr>))\<rparr>"

text \<open>No plugin of the configured type is in the plugin directory.\<close>

definition site_no_plugin :: world where
  "site_no_plugin = site_complete\<lparr>plugrack_use_by_type := (\<lambda>r t. None)\<rparr>"

text \<open>\<open>strdup\<close> finds no memory.\<close>

definition site_no_memory :: world where
  "site_no_memory = site_complete\<lparr>strdup_fails := (\<lambda>s. True)\<rparr>"

text \<open>The rack refuses to be destroyed (plugins still in use).\<close>

definition site_busy_rack :: world where
  "site_busy_rack = site_complete\<lparr>plugrack_destroy := (\<lambda>r. SLURM_ERROR)\<rparr>"

text \<open>
  Two states of a configuration file that never sets the port: first without an
  authentication type and a plugin directory, later with both.
\<close>

definition site_port_unset :: world where
  "site_port_unset = site_complete\<lparr>read_slurm_conf_ctl := (\<lambda>cf. cf)\<rparr>"

definition site_port_unset_edited :: world where
  "site_port_unset_edited =
     site_complete\<lparr>read_slurm_conf_ctl :=
       (\<lambda>cf. cf\<lparr>plugindir := Some ''/opt/slurm/lib'', authtype := Some ''auth/munge''\<rparr>)\<rparr>"


text \<open>A context that owns a rack, as left by a successful resolution.\<close>

definition resolved_context :: slurm_auth_context where
  "resolved_context =
     \<lparr>auth_type = ''auth/none'',
      plugin_list = Some \<lparr>major_type = Some ''auth'', paranoia = (0, 0),
        dirs_read = [''/usr/local/lib'']\<rparr>,
      cur_plugin = Some 1, ops = full_table\<rparr>"


section \<open>Properties\<close>

lemmas site_defs = site_complete_def site_eight_of_nine_def site_no_plugin_def
  site_no_memory_def site_busy_rack_def site_port_unset_def site_port_unset_edited_def
  full_table_def empty_rack_def

lemmas resolve_defs = slurm_auth_init_def g_initial_def conf_zero_def get_auth_type_def
  get_plugin_dir_def slurm_auth_context_create_def strdup_def slurm_auth_get_ops_def
  plugrack_set_major_type_def plugrack_set_paranoia_def plugrack_read_dir_def
  PLUGIN_INVALID_HANDLE_def PLUGRACK_PARANOIA_NONE_def syms_def n_syms_def null_ops_def
  SLURM_SUCCESS_def SLURM_ERROR_def Let_def

lemmas c_dispatch_defs = c_slurm_auth_alloc_def c_slurm_auth_free_def
  c_slurm_auth_activate_def c_slurm_auth_verify_def c_slurm_auth_get_uid_def
  c_slurm_auth_get_gid_def c_slurm_auth_pack_def c_slurm_auth_unpack_def
  c_slurm_auth_print_def

lemmas g_dispatch_defs = g_slurm_auth_alloc_def g_slurm_auth_free_def
  g_slurm_auth_activate_def g_slurm_auth_verify_def g_slurm_auth_get_uid_def
  g_slurm_auth_get_gid_def g_slurm_auth_pack_def g_slurm_auth_unpack_def
  g_slurm_auth_print_def

subsection \<open>Helper facts\<close>

lemma init_eight_of_nine:
  "slurm_auth_init site_eight_of_nine g_initial =
     (SLURM_ERROR,
      \<lparr>g_context = Some (resolved_context\<lparr>ops := full_table\<lparr>print := None\<rparr>\<rparr>),
       conf = \<lparr>slurmd_port = 7003, plugindir = Some ''/usr/local/lib'',
         authtype = Some ''auth/none''\<rparr>\<rparr>)"
  by (simp add: resolve_defs site_defs resolved_context_def)

lemma init_no_plugin:
  "slurm_auth_init site_no_plugin g_initial =
     (SLURM_ERROR,
      \<lparr>g_context = Some (resolved_context\<lparr>cur_plugin := None, ops := null_ops\<rparr>),
       conf = \<lparr>slurmd_port = 7003, plugindir = Some ''/usr/local/lib'',
         authtype = Some ''auth/none''\<rparr>\<rparr>)"
  by (simp add: resolve_defs site_defs resolved_context_def)

lemma first_alloc_no_plugin:
  "g_slurm_auth_alloc site_no_plugin g_initial =
     (snd (slurm_auth_init site_no_plugin g_initial), Return None)"
proof -
  have "g_context g_initial = None"
    by (simp add: g_initial_def)
  then show ?thesis
    by (simp add: g_slurm_auth_alloc_def init_no_plugin SLURM_SUCCESS_def SLURM_ERROR_def)
qed


subsection \<open>Resolution of an incomplete plugin\<close>

text \<open>
  Claim C1 at its failing input. At a site whose plugin lacks \<open>slurm_auth_print\<close>,
  \<open>slurm_auth_get_ops\<close> fails at its incomplete-plugin exit and
  \<open>slurm_auth_init\<close> returns \<open>SLURM_ERROR\<close>, but \<open>g_context\<close> keeps the
  context with the table of eight functions. The next \<open>g_slurm_auth_alloc\<close>
  calls the plugin's \<open>alloc\<close> out of that table, and the next
  \<open>g_slurm_auth_print\<close> calls through the empty slot.
\<close>

theorem partial_table_reaches_global_dispatch:
  "snd (snd (slurm_auth_get_ops site_eight_of_nine conf_zero
       \<lparr>auth_type = ''auth/none'', plugin_list = None, cur_plugin = None, ops = null_ops\<rparr>))
     = Inl Incomplete_plugin
   \<and> fst (slurm_auth_init site_eight_of_nine g_initial) = SLURM_ERROR
   \<and> map_option (\<lambda>c. populated (ops c))
       (g_context (snd (slurm_auth_init site_eight_of_nine g_initial))) = Some 8
   \<and> slurm_auth_init site_eight_of_nine (snd (slurm_auth_init site_eight_of_nine g_initial))
       = (SLURM_SUCCESS, snd (slurm_auth_init site_eight_of_nine g_initial))
   \<and> snd (g_slurm_auth_alloc site_eight_of_nine
       (snd (slurm_auth_init site_eight_of_nine g_initial))) = Invoke 101 []
   \<and> snd (g_slurm_auth_print site_eight_of_nine
       (snd (slurm_auth_init site_eight_of_nine g_initial)) (Some 7) (Some 8)) = Segfault"
proof -
  have "slurm_auth_get_ops site_eight_of_nine conf_zero
       \<lparr>auth_type = ''auth/none'', plugin_list = None, cur_plugin = None, ops = null_ops\<rparr>
     = (\<lparr>slurmd_port = 7003, plugindir = Some ''/usr/local/lib'', authtype = None\<rparr>,
        resolved_context\<lparr>ops := full_table\<lparr>print := None\<rparr>\<rparr>,
        Inl Incomplete_plugin)"
    by (simp add: resolve_defs site_defs resolved_context_def)
  then show ?thesis
    unfolding init_eight_of_nine
    by (simp add: slurm_auth_init_def populated_def full_table_def resolved_context_def
      g_slurm_auth_alloc_def g_slurm_auth_print_def g_call_def call_def)
qed

subsection \<open>A failed initialisation and the global context\<close>

text \<open>
  Claim C2 at its failing input. At a site with no plugin of the configured type,
  the first \<open>slurm_auth_init\<close> returns \<open>SLURM_ERROR\<close> and leaves \<open>g_context\<close>
  set to the unresolved context; the second \<open>slurm_auth_init\<close> returns
  \<open>SLURM_SUCCESS\<close> without doing anything, and a \<open>g_slurm_auth_verify\<close> after it
  calls through the empty slot.
\<close>

theorem init_failure_leaves_context_set:
  "fst (slurm_auth_init site_no_plugin g_initial) = SLURM_ERROR
   \<and> g_context (snd (slurm_auth_init site_no_plugin g_initial))
       = Some (resolved_context\<lparr>cur_plugin := None, ops := null_ops\<rparr>)
   \<and> slurm_auth_init site_no_plugin (snd (slurm_auth_init site_no_plugin g_initial))
       = (SLURM_SUCCESS, snd (slurm_auth_init site_no_plugin g_initial))
   \<and> snd (g_slurm_auth_verify site_no_plugin
       (snd (slurm_auth_init site_no_plugin g_initial)) (Some 7)) = Segfault"
  unfolding init_no_plugin
  by (simp add: slurm_auth_init_def g_slurm_auth_verify_def g_call_def
    call_def null_ops_def resolved_context_def)

subsection \<open>Global dispatch when initialisation fails\<close>

text \<open>
  Claim C3 at its failing input. At a site with no plugin of the configured type, the
  first global call runs \<open>slurm_auth_init\<close>, which fails, and returns its degraded
  value. Every global call after it finds \<open>g_context\<close> set, does not run
  \<open>slurm_auth_init\<close>, and calls through the empty slot of the unresolved context.
\<close>

theorem global_calls_after_failed_init:
  "g_slurm_auth_alloc site_no_plugin g_initial
     = (snd (slurm_auth_init site_no_plugin g_initial), Return None)
   \<and> fst (slurm_auth_init site_no_plugin g_initial) = SLURM_ERROR
   \<and> snd (g_slurm_auth_alloc site_no_plugin
       (fst (g_slurm_auth_alloc site_no_plugin g_initial))) = Segfault
   \<and> snd (g_slurm_auth_free site_no_plugin
       (fst (g_slurm_auth_alloc site_no_plugin g_initial)) (Some 7)) = Segfault
   \<and> snd (g_slurm_auth_activate site_no_plugin
       (fst (g_slurm_auth_alloc site_no_plugin g_initial)) (Some 7) 60) = Segfault
   \<and> snd (g_slurm_auth_verify site_no_plugin
       (fst (g_slurm_auth_alloc site_no_plugin g_initial)) (Some 7)) = Segfault
   \<and> snd (g_slurm_auth_get_uid site_no_plugin
       (fst (g_slurm_auth_alloc site_no_plugin g_initial)) (Some 7)) = Segfault
   \<and> snd (g_slurm_auth_get_gid site_no_plugin
       (fst (g_slurm_auth_alloc site_no_plugin g_initial)) (Some 7)) = Segfault
   \<and> snd (g_slurm_auth_pack site_no_plugin
       (fst (g_slurm_auth_alloc site_no_plugin g_initial)) (Some 7) (Some 8)) = Segfault
   \<and> snd (g_slurm_auth_unpack site_no_plugin
       (fst (g_slurm_auth_alloc site_no_plugin g_initial)) (Some 7) (Some 8)) = Segfault
   \<and> snd (g_slurm_auth_print site_no_plugin
       (fst (g_slurm_auth_alloc site_no_plugin g_initial)) (Some 7) (Some 8)) = Segfault"
  unfolding first_alloc_no_plugin
  unfolding init_no_plugin
  by (simp add: g_dispatch_defs g_call_def call_def null_ops_def resolved_context_def)


subsection \<open>Null arguments to the explicit-context calls\<close>

text \<open>
  Claim C4. Each \<open>c_slurm_auth_*\<close> function, given a null context, a null
  credential or (pack, unpack, print) a null buffer or stream, returns its own value
  and calls nothing: \<open>NULL\<close> for alloc, \<open>SLURM_ERROR\<close> for activate, verify and
  unpack, \<open>SLURM_AUTH_NOBODY\<close> for get_uid and get_gid, nothing for free, pack and
  print.
\<close>

theorem c_dispatch_null_arguments:
  "c_slurm_auth_alloc None = Return None
   \<and> c_slurm_auth_free None cred = Return ()
   \<and> c_slurm_auth_free c None = Return ()
   \<and> c_slurm_auth_activate None cred secs = Return SLURM_ERROR
   \<and> c_slurm_auth_activate c None secs = Return SLURM_ERROR
   \<and> c_slurm_auth_verify None cred = Return SLURM_ERROR
   \<and> c_slurm_auth_verify c None = Return SLURM_ERROR
   \<and> c_slurm_auth_get_uid None cred = Return SLURM_AUTH_NOBODY
   \<and> c_slurm_auth_get_uid c None = Return SLURM_AUTH_NOBODY
   \<and> c_slurm_auth_get_gid None cred = Return SLURM_AUTH_NOBODY
   \<and> c_slurm_auth_get_gid c None = Return SLURM_AUTH_NOBODY
   \<and> c_slurm_auth_pack None cred buf = Return ()
   \<and> c_slurm_auth_pack c None buf = Return ()
   \<and> c_slurm_auth_pack c cred None = Return ()
   \<and> c_slurm_auth_unpack None cred buf = Return SLURM_ERROR
   \<and> c_slurm_auth_unpack c None buf = Return SLURM_ERROR
   \<and> c_slurm_auth_unpack c cred None = Return SLURM_ERROR
   \<and> c_slurm_auth_print None cred fp = Return ()
   \<and> c_slurm_auth_print c None fp = Return ()
   \<and> c_slurm_auth_print c cred None = Return ()"
  by (simp add: c_dispatch_defs split: option.splits)

subsection \<open>The guard of get_uid and get_gid\<close>


subsection \<open>Creating a context\<close>

text \<open>
  Claim C6, as the code has it. \<open>slurm_auth_context_create\<close> returns no context
  for a null type name. For every non-null type name, the empty string included, of
  which \<open>strdup\<close> makes a copy, it returns a context that holds the name, has no
  rack yet and has the invalid plugin handle. When \<open>strdup\<close> returns \<open>NULL\<close> it
  returns no context.
\<close>

theorem context_create_accepts_non_null:
  "slurm_auth_context_create w None = None
   \<and> (\<not> strdup_fails w s \<longrightarrow>
        slurm_auth_context_create w (Some s)
          = Some \<lparr>auth_type = s, plugin_list = None,
                  cur_plugin = PLUGIN_INVALID_HANDLE, ops = null_ops\<rparr>)
   \<and> (strdup_fails w s \<longrightarrow> slurm_auth_context_create w (Some s) = None)"
  by (simp add: slurm_auth_context_create_def strdup_def)

theorem context_create_accepts_non_null_witness:
  "\<not> strdup_fails site_complete ''auth/none''
   \<and> slurm_auth_context_create site_complete None = None
   \<and> slurm_auth_context_create site_complete (Some ''auth/none'')
       = Some \<lparr>auth_type = ''auth/none'', plugin_list = None,
               cur_plugin = PLUGIN_INVALID_HANDLE, ops = null_ops\<rparr>
   \<and> strdup_fails site_no_memory ''auth/munge''
   \<and> slurm_auth_context_create site_no_memory (Some ''auth/munge'') = None"
proof -
  have copies: "\<not> strdup_fails site_complete ''auth/none''"
    by (simp add: site_complete_def)
  have exhausted: "strdup_fails site_no_memory ''auth/munge''"
    by (simp add: site_no_memory_def site_complete_def)
  from copies exhausted
    context_create_accepts_non_null [where w = site_complete and s = "''auth/none''"]
    context_create_accepts_non_null [where w = site_no_memory and s = "''auth/munge''"]
  show ?thesis by blast
qed

text \<open>
  Claim C6 as stated fails: the empty type name gets a context, and a non-empty
  one gets none when \<open>strdup\<close> returns \<open>NULL\<close>.
\<close>

theorem context_create_empty_name_counterexample:
  "slurm_auth_context_create site_complete (Some [])
     = Some \<lparr>auth_type = [], plugin_list = None,
             cur_plugin = PLUGIN_INVALID_HANDLE, ops = null_ops\<rparr>
   \<and> slurm_auth_context_create site_no_memory (Some ''auth/none'') = None"
  by (simp add: slurm_auth_context_create_def strdup_def site_defs)

subsection \<open>The configuration cache\<close>

text \<open>
  Claim C7, as the code has it. A call of \<open>get_auth_type\<close> or \<open>get_plugin_dir\<close>
  reads the configuration exactly when the cached port is 0, and then answers from
  what was read. When the configuration it answers from has no authentication type,
  \<open>get_auth_type\<close> answers \<open>auth/none\<close> and stores it; when it has no plugin
  directory, \<open>get_plugin_dir\<close> answers \<open>/usr/local/lib\<close> and stores it; a value
  that is there is answered as it is. So with a non-zero cached port every call
  answers the cached value and changes at most the one field it fills in, whatever
  \<open>read_slurm_conf_ctl\<close> would deliver, and a call on the cache left by an
  earlier call of the same function changes nothing.
\<close>

theorem config_defaults_cached:
  "(slurmd_port cf \<noteq> 0 \<and> authtype cf = None \<longrightarrow>
      get_auth_type w cf = (cf\<lparr>authtype := Some ''auth/none''\<rparr>, ''auth/none''))
   \<and> (slurmd_port cf \<noteq> 0 \<and> authtype cf = Some a \<longrightarrow>
      get_auth_type w cf = (cf, a))
   \<and> (slurmd_port cf = 0 \<and> authtype (read_slurm_conf_ctl w cf) = None \<longrightarrow>
      get_auth_type w cf
        = ((read_slurm_conf_ctl w cf)\<lparr>authtype := Some ''auth/none''\<rparr>, ''auth/none''))
   \<and> (slurmd_port cf = 0 \<and> authtype (read_slurm_conf_ctl w cf) = Some a \<longrightarrow>
      get_auth_type w cf = (read_slurm_conf_ctl w cf, a))
   \<and> (slurmd_port cf \<noteq> 0 \<and> plugindir cf = None \<longrightarrow>
      get_plugin_dir w cf = (cf\<lparr>plugindir := Some ''/usr/local/lib''\<rparr>, ''/usr/local/lib''))
   \<and> (slurmd_port cf \<noteq> 0 \<and> plugindir cf = Some d \<longrightarrow>
      get_plugin_dir w cf = (cf, d))
   \<and> (slurmd_port cf = 0 \<and> plugindir (read_slurm_conf_ctl w cf) = None \<longrightarrow>
      get_plugin_dir w cf
        = ((read_slurm_conf_ctl w cf)\<lparr>plugindir := Some ''/usr/local/lib''\<rparr>,
           ''/usr/local/lib''))
   \<and> (slurmd_port cf = 0 \<and> plugindir (read_slurm_conf_ctl w cf) = Some d \<longrightarrow>
      get_plugin_dir w cf = (read_slurm_conf_ctl w cf, d))
   \<and> authtype (fst (get_auth_type w cf)) = Some (snd (get_auth_type w cf))
   \<and> plugindir (fst (get_plugin_dir w cf)) = Some (snd (get_plugin_dir w cf))
   \<and> (slurmd_port (fst (get_auth_type w cf)) \<noteq> 0 \<longrightarrow>
      get_auth_type w' (fst (get_auth_type w cf)) = get_auth_type w cf)
   \<and> (slurmd_port (fst (get_plugin_dir w cf)) \<noteq> 0 \<longrightarrow>
      get_plugin_dir w' (fst (get_plugin_dir w cf)) = get_plugin_dir w cf)"
  by (simp add: get_auth_type_def get_plugin_dir_def Let_def split: option.splits)

theorem config_defaults_cached_witness:
  "get_auth_type site_complete conf_zero
     = (\<lparr>slurmd_port = 7003, plugindir = None, authtype = Some ''auth/none''\<rparr>, ''auth/none'')
   \<and> get_plugin_dir site_complete conf_zero
     = (\<lparr>slurmd_port = 7003, plugindir = Some ''/usr/local/lib'', authtype = None\<rparr>,
        ''/usr/local/lib'')
   \<and> get_auth_type site_port_unset_edited
       \<lparr>slurmd_port = 7003, plugindir = None, authtype = None\<rparr>
     = (\<lparr>slurmd_port = 7003, plugindir = None, authtype = Some ''auth/none''\<rparr>, ''auth/none'')
   \<and> get_plugin_dir site_port_unset_edited
       \<lparr>slurmd_port = 7003, plugindir = None, authtype = None\<rparr>
     = (\<lparr>slurmd_port = 7003, plugindir = Some ''/usr/local/lib'', authtype = None\<rparr>,
        ''/usr/local/lib'')
   \<and> get_auth_type site_complete
       \<lparr>slurmd_port = 7003, plugindir = Some ''/usr/lib/slurm'', authtype = Some ''auth/krb''\<rparr>
     = (\<lparr>slurmd_port = 7003, plugindir = Some ''/usr/lib/slurm'',
         authtype = Some ''auth/krb''\<rparr>, ''auth/krb'')
   \<and> get_plugin_dir site_complete
       \<lparr>slurmd_port = 7003, plugindir = Some ''/usr/lib/slurm'', authtype = Some ''auth/krb''\<rparr>
     = (\<lparr>slurmd_port = 7003, plugindir = Some ''/usr/lib/slurm'',
         authtype = Some ''auth/krb''\<rparr>, ''/usr/lib/slurm'')
   \<and> get_auth_type site_port_unset_edited conf_zero
     = (\<lparr>slurmd_port = 0, plugindir = Some ''/opt/slurm/lib'',
         authtype = Some ''auth/munge''\<rparr>, ''auth/munge'')
   \<and> get_plugin_dir site_port_unset_edited conf_zero
     = (\<lparr>slurmd_port = 0, plugindir = Some ''/opt/slurm/lib'',
         authtype = Some ''auth/munge''\<rparr>, ''/opt/slurm/lib'')
   \<and> get_auth_type site_port_unset_edited (fst (get_auth_type site_complete conf_zero))
     = get_auth_type site_complete conf_zero
   \<and> get_plugin_dir site_port_unset_edited (fst (get_plugin_dir site_complete conf_zero))
     = get_plugin_dir site_complete conf_zero"
proof -
  let ?read = "\<lparr>slurmd_port = 7003, plugindir = None, authtype = None\<rparr>"
  let ?set = "\<lparr>slurmd_port = 7003, plugindir = Some ''/usr/lib/slurm'',
    authtype = Some ''auth/krb''\<rparr>"
  let ?edited = "\<lparr>slurmd_port = 0, plugindir = Some ''/opt/slurm/lib'',
    authtype = Some ''auth/munge''\<rparr>"
  have unread: "slurmd_port conf_zero = 0"
    by (simp add: conf_zero_def)
  have reads: "read_slurm_conf_ctl site_complete conf_zero = ?read"
    by (simp add: site_complete_def conf_zero_def)
  have reads_edited: "read_slurm_conf_ctl site_port_unset_edited conf_zero = ?edited"
    by (simp add: site_port_unset_edited_def site_complete_def conf_zero_def)
  have fresh: "slurmd_port conf_zero = 0
      \<and> authtype (read_slurm_conf_ctl site_complete conf_zero) = None"
    "slurmd_port conf_zero = 0
      \<and> plugindir (read_slurm_conf_ctl site_complete conf_zero) = None"
    by (simp_all add: reads unread)
  have fresh_edited: "slurmd_port conf_zero = 0
      \<and> authtype (read_slurm_conf_ctl site_port_unset_edited conf_zero) = Some ''auth/munge''"
    "slurmd_port conf_zero = 0
      \<and> plugindir (read_slurm_conf_ctl site_port_unset_edited conf_zero)
          = Some ''/opt/slurm/lib''"
    by (simp_all add: reads_edited unread)
  have cached: "slurmd_port ?read \<noteq> 0 \<and> authtype ?read = None"
    "slurmd_port ?read \<noteq> 0 \<and> plugindir ?read = None"
    by simp_all
  have cached_set: "slurmd_port ?set \<noteq> 0 \<and> authtype ?set = Some ''auth/krb''"
    "slurmd_port ?set \<noteq> 0 \<and> plugindir ?set = Some ''/usr/lib/slurm''"
    by simp_all
  note first = config_defaults_cached
    [where cf = conf_zero and w = site_complete and w' = site_port_unset_edited]
  note later = config_defaults_cached
    [where cf = "?read" and w = site_port_unset_edited]
  note kept = config_defaults_cached
    [where cf = "?set" and w = site_complete and a = "''auth/krb''"
       and d = "''/usr/lib/slurm''"]
  note again = config_defaults_cached
    [where cf = conf_zero and w = site_port_unset_edited and a = "''auth/munge''"
       and d = "''/opt/slurm/lib''"]
  from first fresh reads
  have a1: "get_auth_type site_complete conf_zero
      = (?read\<lparr>authtype := Some ''auth/none''\<rparr>, ''auth/none'')"
    and d1: "get_plugin_dir site_complete conf_zero
      = (?read\<lparr>plugindir := Some ''/usr/local/lib''\<rparr>, ''/usr/local/lib'')"
    by simp_all
  from later cached
  have a2: "get_auth_type site_port_unset_edited ?read
      = (?read\<lparr>authtype := Some ''auth/none''\<rparr>, ''auth/none'')"
    and d2: "get_plugin_dir site_port_unset_edited ?read
      = (?read\<lparr>plugindir := Some ''/usr/local/lib''\<rparr>, ''/usr/local/lib'')"
    by blast+
  from kept cached_set
  have a4: "get_auth_type site_complete ?set = (?set, ''auth/krb'')"
    and d4: "get_plugin_dir site_complete ?set = (?set, ''/usr/lib/slurm'')"
    by blast+
  from again fresh_edited
  have "get_auth_type site_port_unset_edited conf_zero
      = (read_slurm_conf_ctl site_port_unset_edited conf_zero, ''auth/munge'')"
    and "get_plugin_dir site_port_unset_edited conf_zero
      = (read_slurm_conf_ctl site_port_unset_edited conf_zero, ''/opt/slurm/lib'')"
    by blast+
  then have a5: "get_auth_type site_port_unset_edited conf_zero = (?edited, ''auth/munge'')"
    and d5: "get_plugin_dir site_port_unset_edited conf_zero = (?edited, ''/opt/slurm/lib'')"
    by (simp_all add: reads_edited)
  have "slurmd_port (fst (get_auth_type site_complete conf_zero)) \<noteq> 0"
    "slurmd_port (fst (get_plugin_dir site_complete conf_zero)) \<noteq> 0"
    by (simp_all add: a1 d1)
  with first
  have a3: "get_auth_type site_port_unset_edited (fst (get_auth_type site_complete conf_zero))
      = get_auth_type site_complete conf_zero"
    and d3: "get_plugin_dir site_port_unset_edited
        (fst (get_plugin_dir site_complete conf_zero))
      = get_plugin_dir site_complete conf_zero"
    by blast+
  from a1 d1 a2 d2 a3 d3 a4 d4 a5 d5 show ?thesis
    by simp
qed

text \<open>
  Claim C7 as stated fails. The default type is the string \<open>auth/none\<close>. And at a
  site whose configuration never sets the port, the cache keeps port 0, so the
  next call reads the configuration again: once the file names a type, the call
  after the one that cached \<open>auth/none\<close> answers \<open>auth/munge\<close>.
\<close>

theorem config_reread_counterexample:
  "snd (get_auth_type site_port_unset conf_zero) = ''auth/none''
   \<and> snd (get_auth_type site_port_unset conf_zero) \<noteq> ''none''
   \<and> authtype (fst (get_auth_type site_port_unset conf_zero)) = Some ''auth/none''
   \<and> snd (get_auth_type site_port_unset_edited
        (fst (get_auth_type site_port_unset conf_zero))) = ''auth/munge''"
  by (simp add: get_auth_type_def site_defs conf_zero_def)

subsection \<open>Destroying a context whose rack is busy\<close>

text \<open>
  Claim C9. When the context owns a rack and \<open>plugrack_destroy\<close> does not return
  \<open>SLURM_SUCCESS\<close>, \<open>slurm_auth_context_destroy\<close> returns \<open>SLURM_ERROR\<close> and
  the context is still there with every field as before, so that the same call can be
  made again.
\<close>

theorem destroy_busy_keeps_context:
  assumes "plugin_list c = Some r"
    and "plugrack_destroy w r \<noteq> SLURM_SUCCESS"
  shows "slurm_auth_context_destroy w c = (SLURM_ERROR, Some c)"
  using assms by (simp add: slurm_auth_context_destroy_def)

theorem destroy_busy_keeps_context_witness:
  "plugin_list resolved_context
     = Some \<lparr>major_type = Some ''auth'', paranoia = (0, 0),
        dirs_read = [''/usr/local/lib'']\<rparr>
   \<and> plugrack_destroy site_busy_rack
       \<lparr>major_type = Some ''auth'', paranoia = (0, 0), dirs_read = [''/usr/local/lib'']\<rparr>
     \<noteq> SLURM_SUCCESS
   \<and> slurm_auth_context_destroy site_busy_rack resolved_context
     = (SLURM_ERROR, Some resolved_context)"
proof -
  let ?r = "\<lparr>major_type = Some ''auth'', paranoia = (0, 0),
    dirs_read = [''/usr/local/lib'']\<rparr>"
  have owns: "plugin_list resolved_context = Some ?r"
    by (simp add: resolved_context_def)
  have busy: "plugrack_destroy site_busy_rack ?r \<noteq> SLURM_SUCCESS"
    by (simp add: site_defs SLURM_SUCCESS_def SLURM_ERROR_def)
  from owns busy destroy_busy_keeps_context [OF owns busy] show ?thesis
    by blast
qed

subsection \<open>The global calls forward their arguments\<close>

text \<open>
  Claim C10. With the global context set and its table full, every
  \<open>g_slurm_auth_*\<close> function calls the function in its slot with exactly the
  arguments it was given, null or not, and leaves the global state alone. The
  explicit-context \<open>free\<close>, \<open>pack\<close> and \<open>print\<close> on the same context return
  without a call when the credential or the buffer is null.
\<close>

theorem g_dispatch_forwards_arguments:
  assumes "g_context st = Some c"
    and "ops c = \<lparr>alloc = Some f1, free = Some f2, activate = Some f3, verify = Some f4,
      get_uid = Some f5, get_gid = Some f6, pack = Some f7, unpack = Some f8,
      print = Some f9\<rparr>"
  shows "g_slurm_auth_alloc w st = (st, Invoke f1 [])
    \<and> g_slurm_auth_free w st cred = (st, Invoke f2 [Ptr_arg cred])
    \<and> g_slurm_auth_activate w st cred secs = (st, Invoke f3 [Ptr_arg cred, Int_arg secs])
    \<and> g_slurm_auth_verify w st cred = (st, Invoke f4 [Ptr_arg cred])
    \<and> g_slurm_auth_get_uid w st cred = (st, Invoke f5 [Ptr_arg cred])
    \<and> g_slurm_auth_get_gid w st cred = (st, Invoke f6 [Ptr_arg cred])
    \<and> g_slurm_auth_pack w st cred buf = (st, Invoke f7 [Ptr_arg cred, Ptr_arg buf])
    \<and> g_slurm_auth_unpack w st cred buf = (st, Invoke f8 [Ptr_arg cred, Ptr_arg buf])
    \<and> g_slurm_auth_print w st cred fp = (st, Invoke f9 [Ptr_arg cred, Ptr_arg fp])
    \<and> c_slurm_auth_free (Some c) None = Return ()
    \<and> c_slurm_auth_pack (Some c) None buf = Return ()
    \<and> c_slurm_auth_pack (Some c) cred None = Return ()
    \<and> c_slurm_auth_print (Some c) None fp = Return ()
    \<and> c_slurm_auth_print (Some c) cred None = Return ()"
  using assms
  by (simp add: g_dispatch_defs g_call_def call_def c_slurm_auth_free_def
    c_slurm_auth_pack_def c_slurm_auth_print_def)

theorem g_dispatch_forwards_arguments_witness:
  "g_context \<lparr>g_context = Some resolved_context, conf = conf_zero\<rparr> = Some resolved_context
   \<and> ops resolved_context = full_table
   \<and> g_slurm_auth_free site_complete
       \<lparr>g_context = Some resolved_context, conf = conf_zero\<rparr> None
     = (\<lparr>g_context = Some resolved_context, conf = conf_zero\<rparr>, Invoke 102 [Ptr_arg None])
   \<and> g_slurm_auth_pack site_complete
       \<lparr>g_context = Some resolved_context, conf = conf_zero\<rparr> None None
     = (\<lparr>g_context = Some resolved_context, conf = conf_zero\<rparr>,
        Invoke 107 [Ptr_arg None, Ptr_arg None])
   \<and> g_slurm_auth_print site_complete
       \<lparr>g_context = Some resolved_context, conf = conf_zero\<rparr> (Some 7) None
     = (\<lparr>g_context = Some resolved_context, conf = conf_zero\<rparr>,
        Invoke 109 [Ptr_arg (Some 7), Ptr_arg None])
   \<and> c_slurm_auth_free (Some resolved_context) None = Return ()"
proof -
  let ?st = "\<lparr>g_context = Some resolved_context, conf = conf_zero\<rparr>"
  have bound: "g_context ?st = Some resolved_context"
    by simp
  have table: "ops resolved_context
      = \<lparr>alloc = Some 101, free = Some 102, activate = Some 103, verify = Some 104,
         get_uid = Some 105, get_gid = Some 106, pack = Some 107, unpack = Some 108,
         print = Some 109\<rparr>"
    by (simp add: resolved_context_def full_table_def)
  have full: "ops resolved_context = full_table"
    by (simp add: resolved_context_def)
  note a = g_dispatch_forwards_arguments [OF bound table, of site_complete None 0 None None]
  note b = g_dispatch_forwards_arguments [OF bound table, of site_complete "Some 7" 0 None None]
  from a have "g_slurm_auth_free site_complete ?st None = (?st, Invoke 102 [Ptr_arg None])"
    and "g_slurm_auth_pack site_complete ?st None None
      = (?st, Invoke 107 [Ptr_arg None, Ptr_arg None])"
    and "c_slurm_auth_free (Some resolved_context) None = Return ()"
    by blast+
  moreover from b have "g_slurm_auth_print site_complete ?st (Some 7) None
      = (?st, Invoke 109 [Ptr_arg (Some 7), Ptr_arg None])"
    by blast
  ultimately show ?thesis
    using bound full by blast
qed


end
